theory Spec2Isabelle
  imports Complex_Main
begin

section \<open>JavaScript numbers\<close>

text \<open>
  A JavaScript \<open>number\<close> is a finite double, an infinity or NaN. Every finite double is a
  rational, and the component only compares numbers with the constants 0, 1 and 5 and asks
  whether they are integers, so a finite number is modelled by its exact rational value;
  rounding plays no part. The comparison operators follow ECMAScript: every comparison
  with NaN is false.
\<close>

datatype number = Fin rat | PosInf | NegInf | NaN

fun num_lt :: "number \<Rightarrow> number \<Rightarrow> bool" where
  "num_lt NaN _ = False"
| "num_lt _ NaN = False"
| "num_lt (Fin a) (Fin b) = (a < b)"
| "num_lt (Fin _) PosInf = True"
| "num_lt (Fin _) NegInf = False"
| "num_lt PosInf _ = False"
| "num_lt NegInf NegInf = False"
| "num_lt NegInf _ = True"

definition num_gt :: "number \<Rightarrow> number \<Rightarrow> bool" where
  "num_gt a b = num_lt b a"

fun Number_isInteger :: "number \<Rightarrow> bool" where
  "Number_isInteger (Fin q) = (of_int \<lfloor>q\<rfloor> = q)"
| "Number_isInteger _ = False"

section \<open>Data model\<close>

text \<open>
  The declarations of \<open>GoogleReview\<close> and \<open>FeaturableAPIResponse\<close> live in
  \<open>types/review\<close>, which is not part of the sources at hand; the two records below carry
  the fields that the component reads, typed as the specification's interface section
  gives them. Fields of the response are prefixed \<open>data_\<close> and fields of the props
  \<open>props_\<close>, as the component writes \<open>data.reviews\<close> and \<open>props.reviews\<close>; the state cells
  keep the names of the \<open>useState\<close> variables.
\<close>

record Reviewer =
  displayName :: string
  isAnonymous :: bool

record GoogleReview =
  reviewer :: Reviewer
  comment :: string
  createTime :: string
  starRating :: number

text \<open>
  The body of the response is what the network delivers. A field that the body omits reads
  as \<open>undefined\<close>, and the chain stores what it reads, so the three scalar fields, and the
  state cells they are stored in, are of type \<open>'a js\<close>: \<open>Undefined\<close>, or \<open>Def\<close> a value of
  the declared type. A body in the declared shape has \<open>Def\<close> in all three. The \<open>success\<close>
  flag is read for its truthiness, and the \<open>reviews\<close> array is taken as present.
\<close>

datatype 'a js = Undefined | Def 'a

record FeaturableAPIResponse =
  data_success :: bool
  data_reviews :: "GoogleReview list"
  data_profileUrl :: "string js"
  data_totalReviewCount :: "number js"
  data_averageRating :: "number js"

text \<open>
  The props are a union discriminated by \<open>layout\<close>; each variant carries the props that
  only it has. \<open>'n\<close> stands for \<open>React.ReactNode\<close>, the result of the custom renderer.
  An optional prop is an \<open>option\<close>: \<open>None\<close> is an absent (undefined or null) prop.
\<close>

datatype 'n layout =
    is_carousel: carousel (carouselSpeed: "number option") (carouselAutoplay: "bool option")
      (maxItems: "number option")
  | is_badge: badge (badge_profileUrl: "string option")
  | is_custom: custom (renderer: "GoogleReview list \<Rightarrow> 'n")

record 'n props =
  props_layout :: "'n layout"
  props_nameDisplay :: "string option"
  props_logoVariant :: "string option"
  props_maxCharacters :: "number option"
  props_dateDisplay :: "string option"
  props_reviewVariant :: "string option"
  props_theme :: "string option"
  props_structuredData :: "bool option"
  props_brandName :: "string option"
  props_productName :: "string option"
  props_productDescription :: "string option"
  props_accessibility :: "bool option"
  props_totalReviewCount :: "number option"
  props_averageRating :: "number option"
  props_reviews :: "GoogleReview list option"
  props_featurableId :: "string option"

text \<open>
  The six \<open>useState\<close> cells of one mounted instance. In the last three \<open>None\<close> is
  \<open>null\<close>; \<open>Some Undefined\<close> is a cell that holds \<open>undefined\<close>, which is not \<open>null\<close>.
\<close>

record state =
  reviews :: "GoogleReview list"
  loading :: bool
  error :: bool
  profileUrl :: "string js option"
  totalReviewCount :: "number js option"
  averageRating :: "number js option"

text \<open>The page context the component reads ambiently.\<close>

record document =
  document_title :: string
  document_location_href :: string

text \<open>
  What one render returns: a placeholder, or the \<open>div\<close> with its children. A JSX child
  \<open>cond && <X/>\<close> whose condition is false renders nothing, so the children are the list
  of the elements whose condition held, in source order. The \<open>Badge\<close> element receives the
  two aggregate cells as they are (the \<open>!\<close> of the source is erased at run time).
\<close>

datatype 'n child =
    is_Script: Script string
  | is_Carousel: Carousel "GoogleReview list" "number option" "string option" "string option"
      "string option" "string option" "number option" "bool option" "number option"
      "string option" "bool option"
  | is_Badge: Badge "number js option" "number js option" "string js option" "string option"
  | is_CustomNode: CustomNode 'n

datatype 'n element = LoadingState | ErrorState | Div "'n child list"

datatype exn = Throw string

section \<open>Validation and initial state\<close>

definition validate :: "'n props \<Rightarrow> exn + unit" where
  "validate props =
     (if (case props_totalReviewCount props of
            None \<Rightarrow> False
          | Some n \<Rightarrow> num_lt n (Fin 0) \<or> \<not> Number_isInteger n)
      then Inl (Throw ''totalReviewCount must be a positive integer'')
      else if (case props_averageRating props of
                 None \<Rightarrow> False
               | Some r \<Rightarrow> num_lt r (Fin 1) \<or> num_gt r (Fin 5))
      then Inl (Throw ''averageRating must be between 1 and 5'')
      else Inr ())"

text \<open>The initial values handed to the six \<open>useState\<close> calls.\<close>

definition useState_init :: "'n props \<Rightarrow> state" where
  "useState_init props =
     \<lparr> reviews = (case props_reviews props of Some rs \<Rightarrow> rs | None \<Rightarrow> []),
       loading = True,
       error = False,
       profileUrl = (case props_layout props of badge u \<Rightarrow> map_option Def u | _ \<Rightarrow> None),
       totalReviewCount = map_option Def (props_totalReviewCount props),
       averageRating = map_option Def (props_averageRating props) \<rparr>"

section \<open>Structured data\<close>

text \<open>
  The template literals of the source, character by character. \<open>ToString\<close> is the
  conversion of a number to a string that \<open>${...}\<close> applies, and \<open>template_value\<close> extends
  it to a cell that holds \<open>undefined\<close>; interpolating the mapped array joins its elements
  with commas.
\<close>

definition template_value :: "(number \<Rightarrow> string) \<Rightarrow> number js \<Rightarrow> string" where
  "template_value ToString v = (case v of Undefined \<Rightarrow> ''undefined'' | Def n \<Rightarrow> ToString n)"

fun join_comma :: "string list \<Rightarrow> string" where
  "join_comma [] = []"
| "join_comma [s] = s"
| "join_comma (s # t # ss) = s @ '','' @ join_comma (t # ss)"

definition review_entry :: "(number \<Rightarrow> string) \<Rightarrow> GoogleReview \<Rightarrow> string" where
  \<open>review_entry ToString review =
     ''{\<newline>'' @
     ''            "@type": "Review",\<newline>'' @
     ''            "reviewBody": "'' @ comment review @ ''",\<newline>'' @
     ''            "datePublished": "'' @ createTime review @ ''",\<newline>'' @
     ''            "author": { "@type": "Person", "name": "'' @
         displayName (reviewer review) @ ''" },\<newline>'' @
     ''            "reviewRating": { "@type": "Rating", "ratingValue": '' @
         ToString (starRating review) @ '' }\<newline>'' @
     ''        }''\<close>

definition structured_reviews :: "GoogleReview list \<Rightarrow> GoogleReview list" where
  "structured_reviews rs = take 10 (filter (\<lambda>r. isAnonymous (reviewer r)) rs)"

definition structured_data ::
  "document \<Rightarrow> (number \<Rightarrow> string) \<Rightarrow> 'n props \<Rightarrow> number js \<Rightarrow> number js \<Rightarrow>
     GoogleReview list \<Rightarrow> string"
where
  \<open>structured_data doc ToString props avg cnt rs =
     ''{\<newline>'' @
     ''    "@context": "https://schema.org",\<newline>'' @
     ''    "@type": "Product",\<newline>'' @
     ''    "name": "'' @
         (case props_productName props of Some s \<Rightarrow> s | None \<Rightarrow> document_title doc) @
         ''",\<newline>'' @
     ''    "url": "'' @ document_location_href doc @ ''",\<newline>'' @
     ''    "brand": { "@type": "Brand", "name": "'' @
         (case props_brandName props of Some s \<Rightarrow> s | None \<Rightarrow> document_title doc) @
         ''" },\<newline>'' @
     ''    "description": "'' @
         (case props_productDescription props of Some s \<Rightarrow> s | None \<Rightarrow> []) @
         ''",\<newline>'' @
     ''    "image": [],\<newline>'' @
     ''    "aggregateRating": {\<newline>'' @
     ''        "@type": "AggregateRating",\<newline>'' @
     ''        "ratingValue": '' @ template_value ToString avg @ '',\<newline>'' @
     ''        "reviewCount": '' @ template_value ToString cnt @ '',\<newline>'' @
     ''        "bestRating": 5,\<newline>'' @
     ''        "worstRating": 1\<newline>'' @
     ''    },\<newline>'' @
     ''    "review": ['' @
         join_comma (map (review_entry ToString) (structured_reviews rs)) @
         '']\<newline>'' @
     ''}\<newline>''\<close>

section \<open>Rendering\<close>

text \<open>The part of the function body after the hooks: what is returned for a state.\<close>

definition script_child ::
  "document \<Rightarrow> (number \<Rightarrow> string) \<Rightarrow> 'n props \<Rightarrow> state \<Rightarrow> 'n child list" where
  "script_child doc ToString props st =
     (case (props_structuredData props, averageRating st, totalReviewCount st) of
        (Some True, Some avg, Some cnt) \<Rightarrow>
          [Script (structured_data doc ToString props avg cnt (reviews st))]
      | _ \<Rightarrow> [])"

definition layout_child :: "'n props \<Rightarrow> state \<Rightarrow> 'n child list" where
  "layout_child props st =
     (case props_layout props of
        carousel speed autoplay items \<Rightarrow>
          [Carousel (reviews st) (props_maxCharacters props) (props_nameDisplay props)
             (props_logoVariant props) (props_dateDisplay props) (props_reviewVariant props)
             speed autoplay items (props_theme props) (props_accessibility props)]
      | _ \<Rightarrow> [])
     @
     (case props_layout props of
        badge _ \<Rightarrow>
          [Badge (averageRating st) (totalReviewCount st) (profileUrl st) (props_theme props)]
      | _ \<Rightarrow> [])
     @
     (case props_layout props of
        custom r \<Rightarrow> [CustomNode (r (reviews st))]
      | _ \<Rightarrow> [])"

definition render ::
  "document \<Rightarrow> (number \<Rightarrow> string) \<Rightarrow> 'n props \<Rightarrow> state \<Rightarrow> 'n element" where
  "render doc ToString props st =
     (if loading st then LoadingState
      else if error st \<or>
              (is_badge (props_layout props) \<and>
               (averageRating st = None \<or> totalReviewCount st = None))
      then ErrorState
      else Div (script_child doc ToString props st @ layout_child props st))"

text \<open>
  The badge guard by name: the second disjunct of the condition under which \<open>render\<close>
  returns the error placeholder.
\<close>

definition badge_guard :: "'n props \<Rightarrow> state \<Rightarrow> bool" where
  "badge_guard props st =
     (is_badge (props_layout props) \<and> (averageRating st = None \<or> totalReviewCount st = None))"

text \<open>
  The function body: the two checks come first and throw, then the hooks give the state
  (the initial values on the first render, the stored cells afterwards), then the element
  is returned. A thrown error is \<open>Inl\<close>: nothing is rendered and it reaches the host.
\<close>

definition ReactGoogleReviews ::
  "document \<Rightarrow> (number \<Rightarrow> string) \<Rightarrow> 'n props \<Rightarrow> state option \<Rightarrow> exn + (state \<times> 'n element)"
where
  "ReactGoogleReviews doc ToString props hooks =
     (case validate props of
        Inl e \<Rightarrow> Inl e
      | Inr _ \<Rightarrow>
          (let st = (case hooks of None \<Rightarrow> useState_init props | Some s \<Rightarrow> s)
           in Inr (st, render doc ToString props st)))"

section \<open>The effect and the promise chain\<close>

definition widget_url :: "string \<Rightarrow> string" where
  "widget_url featurableId = ''https://featurable.com/api/v1/widgets/'' @ featurableId"

text \<open>
  The body of the effect either issues the GET or clears the loading flag. An empty
  identifier is falsy and takes the \<open>else\<close> branch.
\<close>

datatype effect_action = fetch string | setLoading bool

definition useEffect_body :: "'n props \<Rightarrow> effect_action" where
  "useEffect_body props =
     (case props_featurableId props of
        Some featurableId \<Rightarrow>
          (if featurableId \<noteq> [] then fetch (widget_url featurableId) else setLoading False)
      | None \<Rightarrow> setLoading False)"

text \<open>
  How a request can end: \<open>fetch\<close> rejects, \<open>res.json()\<close> rejects, or a body arrives.
  The three callbacks of the chain are state updates: \<open>then_data\<close> is the second
  \<open>then\<close>, \<open>catch_handler\<close> the \<open>catch\<close> and \<open>finally_handler\<close> the \<open>finally\<close>.
\<close>

datatype response = Rejected | BodyUnparsable | Body FeaturableAPIResponse

definition then_data :: "FeaturableAPIResponse \<Rightarrow> state \<Rightarrow> state" where
  "then_data data st =
     (if \<not> data_success data then st\<lparr>error := True\<rparr>
      else st\<lparr>reviews := data_reviews data,
              profileUrl := Some (data_profileUrl data),
              totalReviewCount := Some (data_totalReviewCount data),
              averageRating := Some (data_averageRating data)\<rparr>)"

definition catch_handler :: "state \<Rightarrow> state" where
  "catch_handler st = st\<lparr>error := True\<rparr>"

definition finally_handler :: "state \<Rightarrow> state" where
  "finally_handler st = st\<lparr>loading := False\<rparr>"

definition chain_update :: "response \<Rightarrow> state \<Rightarrow> state" where
  "chain_update r st = (case r of Body data \<Rightarrow> then_data data st | _ \<Rightarrow> catch_handler st)"

section \<open>One mounted instance\<close>

text \<open>
  React's part, written out: the function body runs at mount and at every change of props
  or state; the effect, whose dependency list is \<open>[props.featurableId]\<close>, runs after the
  first render and after each render whose \<open>featurableId\<close> differs from that of the render
  before; it returns no cleanup. A state setter that changes nothing causes no render.
  The instance records the requests it issued and everything it rendered.
\<close>

record 'n mounted =
  inst_props :: "'n props"
  inst_state :: state
  inst_fetches :: "string list"
  inst_pending :: "nat list"
  inst_rendered :: "'n element list"

definition set_state ::
  "document \<Rightarrow> (number \<Rightarrow> string) \<Rightarrow> (state \<Rightarrow> state) \<Rightarrow> 'n mounted \<Rightarrow> exn + 'n mounted"
where
  "set_state doc ToString f inst =
     (if f (inst_state inst) = inst_state inst then Inr inst
      else
        (case ReactGoogleReviews doc ToString (inst_props inst) (Some (f (inst_state inst))) of
           Inl e \<Rightarrow> Inl e
         | Inr (st, el) \<Rightarrow>
             Inr (inst\<lparr>inst_state := st, inst_rendered := inst_rendered inst @ [el]\<rparr>)))"

definition run_effect ::
  "document \<Rightarrow> (number \<Rightarrow> string) \<Rightarrow> 'n mounted \<Rightarrow> exn + 'n mounted" where
  "run_effect doc ToString inst =
     (case useEffect_body (inst_props inst) of
        fetch url \<Rightarrow>
          Inr (inst\<lparr>inst_fetches := inst_fetches inst @ [url],
                    inst_pending := inst_pending inst @ [length (inst_fetches inst)]\<rparr>)
      | setLoading b \<Rightarrow> set_state doc ToString (\<lambda>st. st\<lparr>loading := b\<rparr>) inst)"

definition mount ::
  "document \<Rightarrow> (number \<Rightarrow> string) \<Rightarrow> 'n props \<Rightarrow> exn + 'n mounted" where
  "mount doc ToString props =
     (case ReactGoogleReviews doc ToString props None of
        Inl e \<Rightarrow> Inl e
      | Inr (st, el) \<Rightarrow>
          run_effect doc ToString
            \<lparr>inst_props = props, inst_state = st, inst_fetches = [], inst_pending = [],
             inst_rendered = [el]\<rparr>)"

definition reconfigure ::
  "document \<Rightarrow> (number \<Rightarrow> string) \<Rightarrow> 'n props \<Rightarrow> 'n mounted \<Rightarrow> exn + 'n mounted" where
  "reconfigure doc ToString props' inst =
     (case ReactGoogleReviews doc ToString props' (Some (inst_state inst)) of
        Inl e \<Rightarrow> Inl e
      | Inr (st, el) \<Rightarrow>
          (let inst' = inst\<lparr>inst_props := props',
                            inst_rendered := inst_rendered inst @ [el]\<rparr>
           in if props_featurableId props' \<noteq> props_featurableId (inst_props inst)
              then run_effect doc ToString inst'
              else Inr inst'))"

text \<open>
  Request number \<open>k\<close> (in issue order) ends with \<open>r\<close>: the chain's callbacks run, whatever
  the props are by then. The \<open>then\<close> or \<open>catch\<close> callback and the \<open>finally\<close> callback run
  in consecutive microtasks, and React applies the updates of both before it renders
  again, so the chain is one update of the state followed by one render. A request ends
  once.
\<close>

definition settle ::
  "document \<Rightarrow> (number \<Rightarrow> string) \<Rightarrow> nat \<Rightarrow> response \<Rightarrow> 'n mounted \<Rightarrow> exn + 'n mounted" where
  "settle doc ToString k r inst =
     (if k \<notin> set (inst_pending inst) then Inr inst
      else
        set_state doc ToString (\<lambda>st. finally_handler (chain_update r st))
          (inst\<lparr>inst_pending := removeAll k (inst_pending inst)\<rparr>))"

datatype 'n event = Reconfigure "'n props" | Settle nat response

fun step ::
  "document \<Rightarrow> (number \<Rightarrow> string) \<Rightarrow> 'n mounted \<Rightarrow> 'n event \<Rightarrow> exn + 'n mounted" where
  "step doc ToString inst (Reconfigure props') = reconfigure doc ToString props' inst"
| "step doc ToString inst (Settle k r) = settle doc ToString k r inst"

fun run ::
  "document \<Rightarrow> (number \<Rightarrow> string) \<Rightarrow> exn + 'n mounted \<Rightarrow> 'n event list \<Rightarrow> exn + 'n mounted" where
  "run doc ToString (Inl e) _ = Inl e"
| "run doc ToString (Inr inst) [] = Inr inst"
| "run doc ToString (Inr inst) (ev # evs) = run doc ToString (step doc ToString inst ev) evs"

text \<open>The lifecycle state of the specification, read off the two flags as \<open>render\<close> does.\<close>

datatype lifecycle = Loading | Error | Ready

definition lifecycle_of :: "state \<Rightarrow> lifecycle" where
  "lifecycle_of st = (if loading st then Loading else if error st then Error else Ready)"

section \<open>Reading a string value of the document\<close>

text \<open>
  The scanner of a JSON string value, started right after the opening quotation mark: it
  returns the raw content up to the closing quotation mark, and \<open>None\<close> where a JSON parser
  rejects the value: at a control character, at a backslash that does not begin one of the
  escapes of JSON (one of \<open>" \ / b f n r t\<close>, or \<open>u\<close> and four hexadecimal digits), and
  at the end of the text.
\<close>

definition is_hex :: "char \<Rightarrow> bool" where
  "is_hex c = (c \<in> set ''0123456789abcdefABCDEF'')"

definition is_control :: "char \<Rightarrow> bool" where
  "is_control c = ((of_char c :: nat) < 32)"

fun json_string_body :: "string \<Rightarrow> string option" where
  "json_string_body [] = None"
| "json_string_body (c # cs) =
     (if c = CHR 0x22 then Some []
      else if c = CHR 0x5C then
        (case cs of
           [] \<Rightarrow> None
         | d # ds \<Rightarrow>
             if d \<in> set [CHR 0x22, CHR 0x5C, CHR ''/'', CHR ''b'', CHR ''f'', CHR ''n'',
                          CHR ''r'', CHR ''t'']
             then map_option (\<lambda>s. c # d # s) (json_string_body ds)
             else if d = CHR ''u'' then
               (case ds of
                  h1 # h2 # h3 # h4 # rest \<Rightarrow>
                    if is_hex h1 \<and> is_hex h2 \<and> is_hex h3 \<and> is_hex h4
                    then map_option (\<lambda>s. c # d # h1 # h2 # h3 # h4 # s)
                           (json_string_body rest)
                    else None
                | _ \<Rightarrow> None)
             else None)
      else if is_control c then None
      else map_option ((#) c) (json_string_body cs))"

text \<open>
  Text that such a value holds as it is: no quotation mark, no backslash, no control
  character.
\<close>

definition json_plain :: "string \<Rightarrow> bool" where
  "json_plain s = (\<forall>c \<in> set s. c \<noteq> CHR 0x22 \<and> c \<noteq> CHR 0x5C \<and> \<not> is_control c)"

text \<open>
  The \<open>reviewBody\<close> value of a review entry starts after the 60 characters of the
  template that precede the comment.
\<close>

definition reviewBody_read :: "(number \<Rightarrow> string) \<Rightarrow> GoogleReview \<Rightarrow> string option" where
  "reviewBody_read ToString review = json_string_body (drop 60 (review_entry ToString review))"

section \<open>The ranges of the two aggregate figures\<close>

text \<open>
  The two ranges the validation is to enforce: a review count that is an integer and not
  negative, and a rating within the inclusive range from 1 to 5 (the error message of the
  source: \<open>averageRating must be between 1 and 5\<close>). NaN and the infinities are in
  neither.
\<close>

definition nonneg_integer :: "number \<Rightarrow> bool" where
  "nonneg_integer n = (case n of Fin q \<Rightarrow> 0 \<le> q \<and> of_int \<lfloor>q\<rfloor> = q | _ \<Rightarrow> False)"

definition between_1_and_5 :: "number \<Rightarrow> bool" where
  "between_1_and_5 r = (case r of Fin q \<Rightarrow> 1 \<le> q \<and> q \<le> 5 | _ \<Rightarrow> False)"

section \<open>Observing a run\<close>

text \<open>
  A response that does not lead to the success branch: a rejection, an unreadable body, or
  a body whose \<open>success\<close> flag is false.
\<close>

definition failed_response :: "response \<Rightarrow> bool" where
  "failed_response r = (case r of Body data \<Rightarrow> \<not> data_success data | _ \<Rightarrow> True)"

text \<open>What can be seen of a run that may have thrown: its state, renders and requests.\<close>

definition outcome_state :: "exn + 'n mounted \<Rightarrow> state option" where
  "outcome_state r = (case r of Inl _ \<Rightarrow> None | Inr inst \<Rightarrow> Some (inst_state inst))"

definition outcome_rendered :: "exn + 'n mounted \<Rightarrow> 'n element list" where
  "outcome_rendered r = (case r of Inl _ \<Rightarrow> [] | Inr inst \<Rightarrow> inst_rendered inst)"

definition outcome_fetches :: "exn + 'n mounted \<Rightarrow> string list" where
  "outcome_fetches r = (case r of Inl _ \<Rightarrow> [] | Inr inst \<Rightarrow> inst_fetches inst)"

section \<open>Sample inputs\<close>

definition sample_document :: document where
  "sample_document =
     \<lparr>document_title = ''Shop'', document_location_href = ''https://shop.example/''\<rparr>"

definition sample_ToString :: "number \<Rightarrow> string" where
  "sample_ToString n =
     (case n of
        Fin q \<Rightarrow>
          (if q = 5 then ''5'' else if q = 12 then ''12'' else if q = 9 / 2 then ''4.5''
           else ''0'')
      | PosInf \<Rightarrow> ''Infinity''
      | NegInf \<Rightarrow> ''-Infinity''
      | NaN \<Rightarrow> ''NaN'')"

definition named_review :: GoogleReview where
  "named_review =
     \<lparr>reviewer = \<lparr>displayName = ''Ann Lee'', isAnonymous = False\<rparr>,
      comment = ''Great'', createTime = ''2024-01-02T03:04:05Z'', starRating = Fin 5\<rparr>"

definition anonymous_review :: GoogleReview where
  "anonymous_review =
     \<lparr>reviewer = \<lparr>displayName = ''A Google user'', isAnonymous = True\<rparr>,
      comment = ''Fine'', createTime = ''2024-02-03T04:05:06Z'', starRating = Fin 5\<rparr>"

definition quote_review :: GoogleReview where
  \<open>quote_review =
     \<lparr>reviewer = \<lparr>displayName = ''Bo'', isAnonymous = True\<rparr>,
      comment = ''a"b'', createTime = ''2024-03-04T05:06:07Z'', starRating = Fin 5\<rparr>\<close>

definition sample_renderer :: "GoogleReview list \<Rightarrow> string" where
  "sample_renderer rs = concat (map comment rs)"

definition sample_props :: "string props" where
  "sample_props =
     \<lparr>props_layout = carousel None None None,
      props_nameDisplay = None, props_logoVariant = None, props_maxCharacters = None,
      props_dateDisplay = None, props_reviewVariant = None, props_theme = None,
      props_structuredData = None, props_brandName = None, props_productName = None,
      props_productDescription = None, props_accessibility = None,
      props_totalReviewCount = None, props_averageRating = None,
      props_reviews = None, props_featurableId = None\<rparr>"

definition supplied_props :: "string props" where
  "supplied_props = sample_props\<lparr>props_reviews := Some [named_review, anonymous_review]\<rparr>"

definition remote_props :: "string props" where
  "remote_props = sample_props\<lparr>props_featurableId := Some ''abc''\<rparr>"

definition badge_remote_props :: "string props" where
  "badge_remote_props =
     remote_props\<lparr>props_layout := badge (Some ''https://maps.example/p''),
                  props_totalReviewCount := Some (Fin 12)\<rparr>"

definition badge_props :: "string props" where
  "badge_props = supplied_props\<lparr>props_layout := badge None, props_averageRating := Some (Fin 5)\<rparr>"

definition custom_props :: "string props" where
  "custom_props = supplied_props\<lparr>props_layout := custom sample_renderer\<rparr>"

definition ready_state :: state where
  "ready_state = \<lparr>reviews = [named_review], loading = False, error = False,
     profileUrl = None, totalReviewCount = None, averageRating = Some (Def (Fin 5))\<rparr>"

definition remote_a :: "string props" where
  "remote_a = sample_props\<lparr>props_featurableId := Some ''a''\<rparr>"

definition remote_b :: "string props" where
  "remote_b = sample_props\<lparr>props_featurableId := Some ''b''\<rparr>"

definition mounted_a :: "string mounted" where
  "mounted_a =
     \<lparr>inst_props = remote_a, inst_state = useState_init remote_a,
      inst_fetches = [widget_url ''a''], inst_pending = [0],
      inst_rendered = [LoadingState]\<rparr>"

definition nan_rating_props :: "string props" where
  "nan_rating_props = supplied_props\<lparr>props_averageRating := Some NaN\<rparr>"

definition success_data :: FeaturableAPIResponse where
  "success_data =
     \<lparr>data_success = True, data_reviews = [named_review], data_profileUrl = Def ''u'',
      data_totalReviewCount = Def (Fin 12), data_averageRating = Def (Fin (9 / 2))\<rparr>"

definition failure_data :: FeaturableAPIResponse where
  "failure_data = success_data\<lparr>data_success := False\<rparr>"

definition stale_data :: FeaturableAPIResponse where
  "stale_data =
     \<lparr>data_success = True, data_reviews = [anonymous_review], data_profileUrl = Def ''v'',
      data_totalReviewCount = Def (Fin 5), data_averageRating = Def (Fin 5)\<rparr>"

definition omitted_rating_data :: FeaturableAPIResponse where
  "omitted_rating_data = success_data\<lparr>data_averageRating := Undefined\<rparr>"

definition badge_fetch_props :: "string props" where
  "badge_fetch_props = remote_props\<lparr>props_layout := badge None\<rparr>"

definition fresh_then_stale :: "string event list" where
  "fresh_then_stale =
     [Reconfigure remote_b, Settle 1 (Body success_data), Settle 0 (Body stale_data)]"

section \<open>Validation\<close>

lemma Number_isInteger_iff: "Number_isInteger n \<longleftrightarrow> (\<exists>q. n = Fin q \<and> q \<in> \<int>)"
  by (cases n) (auto simp: Ints_def intro: floor_of_int elim!: Ints_cases)

lemma count_check:
  "(num_lt n (Fin 0) \<or> \<not> Number_isInteger n) \<longleftrightarrow> \<not> nonneg_integer n"
  by (cases n) (auto simp: nonneg_integer_def)

lemma rating_check:
  "(num_lt r (Fin 1) \<or> num_gt r (Fin 5)) \<longleftrightarrow> r \<noteq> NaN \<and> \<not> between_1_and_5 r"
  by (cases r) (auto simp: between_1_and_5_def num_gt_def)

text \<open>
  The checks throw exactly for a count that is not a non-negative integer (NaN and the
  infinities included) and for a rating other than NaN that is not between 1 and 5.
\<close>

lemma validate_throws_iff:
  "(\<exists>e. validate props = Inl e) \<longleftrightarrow>
     (\<exists>n. props_totalReviewCount props = Some n \<and> \<not> nonneg_integer n) \<or>
     (\<exists>r. props_averageRating props = Some r \<and> r \<noteq> NaN \<and> \<not> between_1_and_5 r)"
  unfolding validate_def using count_check rating_check
  by (auto split: option.splits)

text \<open>
  A failed check leaves the function body before any hook or render: the error is the
  result of the first call, and of the mount.
\<close>

lemma validate_throws_first:
  "validate props = Inl e \<Longrightarrow>
   ReactGoogleReviews doc ToString props hooks = Inl e \<and> mount doc ToString props = Inl e"
  by (simp add: ReactGoogleReviews_def mount_def)

lemma component_first_render:
  "validate props = Inr () \<Longrightarrow>
   ReactGoogleReviews doc ToString props None = Inr (useState_init props, LoadingState)"
  by (simp add: ReactGoogleReviews_def render_def useState_init_def)

lemma component_rerender:
  "validate props = Inr () \<Longrightarrow>
   ReactGoogleReviews doc ToString props (Some st) = Inr (st, render doc ToString props st)"
  by (simp add: ReactGoogleReviews_def)

text \<open>
  C5. Resolution is to fail exactly when a supplied \<open>totalReviewCount\<close> is negative or not
  an integer, or a supplied \<open>averageRating\<close> lies outside the inclusive range from 1 to 5,
  and to fail before anything is rendered. The checks do so for every number but one:
  both comparisons of the rating check are false for NaN, which is not between 1 and 5, so
  a NaN rating passes, the component mounts and renders with it.
\<close>

theorem nan_rating_accepted:
  "props_averageRating nan_rating_props = Some NaN \<and> \<not> between_1_and_5 NaN \<and>
   validate nan_rating_props = Inr () \<and>
   outcome_rendered (mount sample_document sample_ToString nan_rating_props) =
     [LoadingState,
      Div [Carousel [named_review, anonymous_review]
             None None None None None None None None None None]] \<and>
   map_option averageRating
     (outcome_state (mount sample_document sample_ToString nan_rating_props)) =
     Some (Some (Def NaN))"
  by (simp add: nan_rating_props_def supplied_props_def sample_props_def validate_def
      num_gt_def between_1_and_5_def mount_def ReactGoogleReviews_def useState_init_def
      render_def run_effect_def useEffect_body_def set_state_def script_child_def
      layout_child_def outcome_rendered_def outcome_state_def)


section \<open>Mounting\<close>

lemma effect_without_id:
  "props_featurableId props = None \<Longrightarrow> useEffect_body props = setLoading False"
  by (simp add: useEffect_body_def)

lemma effect_with_id:
  "props_featurableId props = Some i \<Longrightarrow> i \<noteq> [] \<Longrightarrow>
   useEffect_body props = fetch (widget_url i)"
  by (simp add: useEffect_body_def)

lemma mount_no_fetch:
  assumes "useEffect_body props = setLoading False" "validate props = Inr ()"
  shows "mount doc ToString props =
     Inr \<lparr>inst_props = props, inst_state = (useState_init props)\<lparr>loading := False\<rparr>,
          inst_fetches = [], inst_pending = [],
          inst_rendered =
            [LoadingState,
             render doc ToString props ((useState_init props)\<lparr>loading := False\<rparr>)]\<rparr>"
proof -
  have changed: "(useState_init props)\<lparr>loading := False\<rparr> \<noteq> useState_init props"
    by (simp add: useState_init_def)
  show ?thesis
    using assms changed
    by (simp add: mount_def component_first_render run_effect_def set_state_def
        component_rerender)
qed

lemma mount_fetch:
  assumes "useEffect_body props = fetch url" "validate props = Inr ()"
  shows "mount doc ToString props =
     Inr \<lparr>inst_props = props, inst_state = useState_init props,
          inst_fetches = [url], inst_pending = [0], inst_rendered = [LoadingState]\<rparr>"
  using assms by (simp add: mount_def component_first_render run_effect_def)

lemma supplied_props_valid: "validate supplied_props = Inr ()"
  by (simp add: supplied_props_def sample_props_def validate_def)

text \<open>
  C1. A supplied-mode configuration (a \<open>reviews\<close> array, no \<open>featurableId\<close>) is to reach
  Ready with no Loading render in between. The loading cell starts as \<open>true\<close> for every
  configuration and is cleared only by the effect, which runs after the first render: the
  sample supplied-mode configuration renders the loading placeholder first and the
  carousel second.
\<close>

theorem supplied_mode_first_render_is_loading:
  "props_reviews supplied_props = Some [named_review, anonymous_review] \<and>
   props_featurableId supplied_props = None \<and>
   outcome_rendered (mount sample_document sample_ToString supplied_props) =
     [LoadingState,
      Div [Carousel [named_review, anonymous_review]
             None None None None None None None None None None]]"
  by (simp add: supplied_props_def sample_props_def validate_def
      mount_def ReactGoogleReviews_def useState_init_def
      render_def run_effect_def useEffect_body_def set_state_def script_child_def
      layout_child_def outcome_rendered_def)

text \<open>
  C1, as the code has it. For every supplied-mode configuration that passes the checks,
  the first render is the loading placeholder; the mount effect issues no request and
  clears the loading flag; the second render is made in lifecycle state Ready, and the
  review sequence of the state is exactly the supplied one.
\<close>

theorem supplied_mode_mount:
  assumes "props_reviews props = Some R" and "props_featurableId props = None"
    and "validate props = Inr ()"
  shows "\<exists>inst. mount doc ToString props = Inr inst \<and> inst_fetches inst = [] \<and>
      inst_rendered inst = [LoadingState, render doc ToString props (inst_state inst)] \<and>
      lifecycle_of (inst_state inst) = Ready \<and> reviews (inst_state inst) = R"
  using mount_no_fetch[OF effect_without_id[OF assms(2)] assms(3), of doc ToString] assms(1)
  by (simp add: lifecycle_of_def useState_init_def)

theorem supplied_mode_mount_witness:
  "\<exists>inst. mount sample_document sample_ToString supplied_props = Inr inst \<and>
      inst_fetches inst = [] \<and>
      inst_rendered inst =
        [LoadingState, render sample_document sample_ToString supplied_props (inst_state inst)] \<and>
      lifecycle_of (inst_state inst) = Ready \<and>
      reviews (inst_state inst) = [named_review, anonymous_review]"
  using supplied_mode_mount[of supplied_props "[named_review, anonymous_review]"
      sample_document sample_ToString] supplied_props_valid
  by (simp add: supplied_props_def sample_props_def)

section \<open>Settling a request\<close>

lemma set_state_valid:
  "validate (inst_props inst) = Inr () \<Longrightarrow>
   \<exists>inst'. set_state doc ToString f inst = Inr inst' \<and>
     inst_state inst' = f (inst_state inst) \<and>
     inst_props inst' = inst_props inst \<and> inst_fetches inst' = inst_fetches inst \<and>
     inst_pending inst' = inst_pending inst"
  by (auto simp: set_state_def component_rerender)

lemma settle_valid:
  assumes "validate (inst_props inst) = Inr ()" and "k \<in> set (inst_pending inst)"
  shows "\<exists>inst'. settle doc ToString k r inst = Inr inst' \<and>
     inst_state inst' = finally_handler (chain_update r (inst_state inst)) \<and>
     inst_props inst' = inst_props inst \<and> inst_fetches inst' = inst_fetches inst \<and>
     inst_pending inst' = removeAll k (inst_pending inst)"
proof -
  let ?i1 = "inst\<lparr>inst_pending := removeAll k (inst_pending inst)\<rparr>"
  from assms(1) have v1: "validate (inst_props ?i1) = Inr ()" by simp
  from set_state_valid[OF v1, of doc ToString "\<lambda>st. finally_handler (chain_update r st)"]
  obtain i2 where "set_state doc ToString (\<lambda>st. finally_handler (chain_update r st)) ?i1
      = Inr i2"
    "inst_state i2 = finally_handler (chain_update r (inst_state inst))"
    "inst_props i2 = inst_props inst" "inst_fetches i2 = inst_fetches inst"
    "inst_pending i2 = removeAll k (inst_pending inst)"
    by auto
  then show ?thesis using assms(2) by (simp add: settle_def)
qed

lemma chain_update_failed:
  "failed_response r \<Longrightarrow> chain_update r st = st\<lparr>error := True\<rparr>"
  by (cases r) (simp_all add: chain_update_def failed_response_def catch_handler_def
      then_data_def)

text \<open>The renders of a first request that fails: loading, then the error placeholder.\<close>

lemma settle_failed_after_mount:
  assumes "useEffect_body props = fetch url" and "validate props = Inr ()"
    and "failed_response r"
  shows "\<exists>inst0. mount doc ToString props = Inr inst0 \<and>
     settle doc ToString 0 r inst0 =
       Inr \<lparr>inst_props = props,
            inst_state = (useState_init props)\<lparr>error := True, loading := False\<rparr>,
            inst_fetches = [url], inst_pending = [],
            inst_rendered = [LoadingState, ErrorState]\<rparr>"
proof -
  have changed: "(useState_init props)\<lparr>error := True, loading := False\<rparr> \<noteq>
      useState_init props"
    by (simp add: useState_init_def)
  have shown: "render doc ToString props
      ((useState_init props)\<lparr>error := True, loading := False\<rparr>) = ErrorState"
    by (simp add: render_def)
  show ?thesis
    using assms(2) changed shown
    by (simp add: mount_fetch[OF assms(1,2)] settle_def set_state_def
        chain_update_failed[OF assms(3)] finally_handler_def component_rerender)
qed

section \<open>The first request of a remote-mode configuration\<close>


lemma remote_props_valid: "validate remote_props = Inr ()"
  by (simp add: remote_props_def sample_props_def validate_def)

lemma remote_props_id: "props_featurableId remote_props = Some ''abc''"
  by (simp add: remote_props_def sample_props_def)

text \<open>
  C3. For every remote-mode configuration (an identifier that makes the effect issue the
  request) that passes the checks: the mount issues the one request and leaves the
  instance in Loading; when that request ends with a body whose \<open>success\<close> flag is true,
  the instance is in Ready and the four cells \<open>reviews\<close>, \<open>profileUrl\<close>,
  \<open>totalReviewCount\<close> and \<open>averageRating\<close> hold exactly the values of the body, whatever
  the configuration had supplied for them.
\<close>

theorem remote_success_overwrites:
  assumes "props_featurableId props = Some i" and "i \<noteq> []"
    and "validate props = Inr ()" and "data_success data"
  shows "\<exists>inst0 inst.
      mount doc ToString props = Inr inst0 \<and>
      inst_fetches inst0 = [widget_url i] \<and>
      lifecycle_of (inst_state inst0) = Loading \<and>
      settle doc ToString 0 (Body data) inst0 = Inr inst \<and>
      lifecycle_of (inst_state inst) = Ready \<and>
      reviews (inst_state inst) = data_reviews data \<and>
      profileUrl (inst_state inst) = Some (data_profileUrl data) \<and>
      totalReviewCount (inst_state inst) = Some (data_totalReviewCount data) \<and>
      averageRating (inst_state inst) = Some (data_averageRating data)"
proof -
  let ?inst0 = "\<lparr>inst_props = props, inst_state = useState_init props,
      inst_fetches = [widget_url i], inst_pending = [0],
      inst_rendered = [LoadingState :: 'a element]\<rparr>"
  have m: "mount doc ToString props = Inr ?inst0"
    by (rule mount_fetch[OF effect_with_id[OF assms(1,2)] assms(3)])
  have v: "validate (inst_props ?inst0) = Inr ()" using assms(3) by simp
  have k: "0 \<in> set (inst_pending ?inst0)" by simp
  from settle_valid[OF v k, of doc ToString "Body data"]
  obtain inst where s: "settle doc ToString 0 (Body data) ?inst0 = Inr inst"
    and st: "inst_state inst = finally_handler (chain_update (Body data) (useState_init props))"
    by auto
  have l0: "lifecycle_of (inst_state ?inst0) = Loading"
    by (simp add: lifecycle_of_def useState_init_def)
  have fin: "inst_state inst =
      (useState_init props)\<lparr>reviews := data_reviews data,
         profileUrl := Some (data_profileUrl data),
         totalReviewCount := Some (data_totalReviewCount data),
         averageRating := Some (data_averageRating data), loading := False\<rparr>"
    using st assms(4) by (simp add: chain_update_def then_data_def finally_handler_def)
  show ?thesis
    using m s l0 fin by (simp add: lifecycle_of_def useState_init_def)
qed

theorem remote_success_overwrites_witness:
  "\<exists>inst0 inst.
      mount sample_document sample_ToString remote_props = Inr inst0 \<and>
      inst_fetches inst0 = [''https://featurable.com/api/v1/widgets/abc''] \<and>
      lifecycle_of (inst_state inst0) = Loading \<and>
      settle sample_document sample_ToString 0 (Body success_data) inst0 = Inr inst \<and>
      lifecycle_of (inst_state inst) = Ready \<and>
      reviews (inst_state inst) = [named_review] \<and>
      profileUrl (inst_state inst) = Some (Def ''u'') \<and>
      totalReviewCount (inst_state inst) = Some (Def (Fin 12)) \<and>
      averageRating (inst_state inst) = Some (Def (Fin (9 / 2)))"
  using remote_success_overwrites[OF remote_props_id _ remote_props_valid,
      of success_data sample_document sample_ToString]
  by (simp add: success_data_def widget_url_def)

text \<open>
  C4. For every remote-mode configuration that passes the checks, a request that is
  rejected, whose body cannot be parsed, or whose body carries \<open>success: false\<close> takes the
  instance from Loading to Error: nothing is thrown (the run returns an instance), and
  the render that follows, like every render in that state, returns the error placeholder.
\<close>

theorem remote_failure_is_error:
  assumes "props_featurableId props = Some i" and "i \<noteq> []"
    and "validate props = Inr ()" and "failed_response r"
  shows "\<exists>inst0 inst.
      mount doc ToString props = Inr inst0 \<and>
      lifecycle_of (inst_state inst0) = Loading \<and>
      settle doc ToString 0 r inst0 = Inr inst \<and>
      lifecycle_of (inst_state inst) = Error \<and>
      last (inst_rendered inst) = ErrorState \<and>
      ReactGoogleReviews doc ToString props (Some (inst_state inst)) =
        Inr (inst_state inst, ErrorState)"
proof -
  from settle_failed_after_mount[OF effect_with_id[OF assms(1,2)] assms(3,4), of doc ToString]
  obtain inst0 where m: "mount doc ToString props = Inr inst0"
    and s: "settle doc ToString 0 r inst0 =
       Inr \<lparr>inst_props = props,
            inst_state = (useState_init props)\<lparr>error := True, loading := False\<rparr>,
            inst_fetches = [widget_url i], inst_pending = [],
            inst_rendered = [LoadingState, ErrorState]\<rparr>"
    by blast
  have "inst_state inst0 = useState_init props"
    using m mount_fetch[OF effect_with_id[OF assms(1,2)] assms(3), of doc ToString] by auto
  then have l0: "lifecycle_of (inst_state inst0) = Loading"
    by (simp add: lifecycle_of_def useState_init_def)
  show ?thesis
    using m s l0 assms(3) by (simp add: lifecycle_of_def render_def component_rerender)
qed

theorem remote_failure_is_error_witness:
  "failed_response Rejected \<and> failed_response BodyUnparsable \<and>
   failed_response (Body failure_data) \<and>
   (\<exists>inst0 inst.
      mount sample_document sample_ToString remote_props = Inr inst0 \<and>
      lifecycle_of (inst_state inst0) = Loading \<and>
      settle sample_document sample_ToString 0 (Body failure_data) inst0 = Inr inst \<and>
      lifecycle_of (inst_state inst) = Error \<and>
      last (inst_rendered inst) = ErrorState \<and>
      ReactGoogleReviews sample_document sample_ToString remote_props
        (Some (inst_state inst)) = Inr (inst_state inst, ErrorState))"
proof -
  have f: "failed_response (Body failure_data)"
    by (simp add: failed_response_def failure_data_def success_data_def)
  show ?thesis
    using remote_failure_is_error[OF remote_props_id _ remote_props_valid f,
        of sample_document sample_ToString] f
    by (simp add: failed_response_def)
qed

text \<open>
  C10. For every remote-mode configuration (an identifier, no \<open>reviews\<close>) whose request
  fails, the state afterwards is the state of the mount with only the \<open>error\<close> and
  \<open>loading\<close> flags written: the review sequence is empty, the profile URL is the one the
  badge configuration supplied or null, and the two aggregate figures are the ones the
  configuration supplied or null.
\<close>

theorem remote_failure_keeps_initial_data:
  assumes "props_featurableId props = Some i" and "i \<noteq> []" and "props_reviews props = None"
    and "validate props = Inr ()" and "failed_response r"
  shows "\<exists>inst0 inst.
      mount doc ToString props = Inr inst0 \<and>
      settle doc ToString 0 r inst0 = Inr inst \<and>
      inst_state inst = (inst_state inst0)\<lparr>error := True, loading := False\<rparr> \<and>
      reviews (inst_state inst) = [] \<and>
      profileUrl (inst_state inst) =
        (case props_layout props of badge u \<Rightarrow> map_option Def u | _ \<Rightarrow> None) \<and>
      totalReviewCount (inst_state inst) = map_option Def (props_totalReviewCount props) \<and>
      averageRating (inst_state inst) = map_option Def (props_averageRating props)"
proof -
  from settle_failed_after_mount[OF effect_with_id[OF assms(1,2)] assms(4,5), of doc ToString]
  obtain inst0 where m: "mount doc ToString props = Inr inst0"
    and s: "settle doc ToString 0 r inst0 =
       Inr \<lparr>inst_props = props,
            inst_state = (useState_init props)\<lparr>error := True, loading := False\<rparr>,
            inst_fetches = [widget_url i], inst_pending = [],
            inst_rendered = [LoadingState, ErrorState]\<rparr>"
    by blast
  have i0: "inst_state inst0 = useState_init props"
    using m mount_fetch[OF effect_with_id[OF assms(1,2)] assms(4), of doc ToString] by auto
  show ?thesis
    using m s i0 assms(3) by (simp add: useState_init_def)
qed

theorem remote_failure_keeps_initial_data_witness:
  "\<exists>inst0 inst.
      mount sample_document sample_ToString badge_remote_props = Inr inst0 \<and>
      settle sample_document sample_ToString 0 Rejected inst0 = Inr inst \<and>
      inst_state inst = (inst_state inst0)\<lparr>error := True, loading := False\<rparr> \<and>
      reviews (inst_state inst) = [] \<and>
      profileUrl (inst_state inst) = Some (Def ''https://maps.example/p'') \<and>
      totalReviewCount (inst_state inst) = Some (Def (Fin 12)) \<and>
      averageRating (inst_state inst) = None"
proof -
  have v: "validate badge_remote_props = Inr ()"
    by (simp add: badge_remote_props_def remote_props_def sample_props_def validate_def
        Number_isInteger_iff)
  have f: "failed_response Rejected" by (simp add: failed_response_def)
  show ?thesis
    using remote_failure_keeps_initial_data[of badge_remote_props "''abc''" Rejected
        sample_document sample_ToString] v f
    by (simp add: badge_remote_props_def remote_props_def sample_props_def)
qed

section \<open>The render dispatch\<close>


text \<open>
  The guard as far as it reaches: with layout \<open>badge\<close> in lifecycle state Ready, a cell
  that is \<open>null\<close> gives the error placeholder, as the error flag does.
\<close>

lemma badge_null_is_error:
  assumes "is_badge (props_layout props)" and "lifecycle_of st = Ready"
    and "averageRating st = None \<or> totalReviewCount st = None"
    and "validate props = Inr ()"
  shows "ReactGoogleReviews doc ToString props (Some st) = Inr (st, ErrorState) \<and>
     render doc ToString props st = render doc ToString props (st\<lparr>error := True\<rparr>)"
proof -
  from assms(2) have "\<not> loading st"
    by (auto simp: lifecycle_of_def split: if_splits)
  then show ?thesis
    using assms(1,3,4) by (auto simp: component_rerender render_def)
qed

text \<open>
  C6. With layout \<open>badge\<close> in Ready, a missing aggregate figure is to give the error
  placeholder, not the badge; the case in point is a fetch that succeeds and omits
  \<open>averageRating\<close>. The guard compares the cells with \<open>null\<close> by \<open>===\<close>. The chain stores
  the omitted field as it reads it, \<open>undefined\<close>, which is not \<open>null\<close>: the instance is in
  Ready, the guard does not hold, and the badge is rendered with an undefined rating.
\<close>

theorem badge_rendered_without_rating:
  "is_badge (props_layout badge_fetch_props) \<and>
   data_success omitted_rating_data \<and> data_averageRating omitted_rating_data = Undefined \<and>
   map_option lifecycle_of (outcome_state
     (run sample_document sample_ToString
        (mount sample_document sample_ToString badge_fetch_props)
        [Settle 0 (Body omitted_rating_data)])) = Some Ready \<and>
   map_option averageRating (outcome_state
     (run sample_document sample_ToString
        (mount sample_document sample_ToString badge_fetch_props)
        [Settle 0 (Body omitted_rating_data)])) = Some (Some Undefined) \<and>
   last (outcome_rendered
     (run sample_document sample_ToString
        (mount sample_document sample_ToString badge_fetch_props)
        [Settle 0 (Body omitted_rating_data)])) =
     Div [Badge (Some Undefined) (Some (Def (Fin 12))) (Some (Def ''u'')) None]"
  by (simp add: badge_fetch_props_def remote_props_def sample_props_def
      omitted_rating_data_def success_data_def named_review_def
      validate_def mount_def ReactGoogleReviews_def useState_init_def
      render_def run_effect_def useEffect_body_def set_state_def script_child_def
      layout_child_def outcome_rendered_def outcome_state_def settle_def
      chain_update_def then_data_def finally_handler_def lifecycle_of_def)

lemma script_child_shape:
  "script_child doc ToString props st = [] \<or>
   (\<exists>avg cnt. averageRating st = Some avg \<and> totalReviewCount st = Some cnt \<and>
      script_child doc ToString props st =
        [Script (structured_data doc ToString props avg cnt (reviews st))])"
  by (auto simp: script_child_def split: option.splits bool.splits)

lemma layout_child_one:
  "\<exists>c. layout_child props st = [c] \<and> \<not> is_Script c \<and>
     (case props_layout props of
        carousel speed autoplay items \<Rightarrow>
          c = Carousel (reviews st) (props_maxCharacters props) (props_nameDisplay props)
                (props_logoVariant props) (props_dateDisplay props)
                (props_reviewVariant props) speed autoplay items (props_theme props)
                (props_accessibility props)
      | badge _ \<Rightarrow>
          c = Badge (averageRating st) (totalReviewCount st) (profileUrl st) (props_theme props)
      | custom r \<Rightarrow> c = CustomNode (r (reviews st)))"
  by (cases "props_layout props") (simp_all add: layout_child_def)

text \<open>
  C7. For every state and configuration the render has one result, by fixed precedence:
  in Loading the loading placeholder, whatever the configuration; otherwise, in Error or
  under the badge guard, the error placeholder; otherwise the \<open>div\<close>, whose children are
  at most one structured-data script followed by exactly one layout element, the one that
  the \<open>layout\<close> discriminant names (carousel, badge, or the custom renderer applied to the
  review sequence).
\<close>

theorem render_precedence:
  "(lifecycle_of st = Loading \<longrightarrow> render doc ToString props st = LoadingState) \<and>
   (lifecycle_of st \<noteq> Loading \<and> (lifecycle_of st = Error \<or> badge_guard props st) \<longrightarrow>
      render doc ToString props st = ErrorState) \<and>
   (lifecycle_of st = Ready \<and> \<not> badge_guard props st \<longrightarrow>
      (\<exists>c. render doc ToString props st = Div (script_child doc ToString props st @ [c]) \<and>
           list_all is_Script (script_child doc ToString props st) \<and>
           length (script_child doc ToString props st) \<le> 1 \<and>
           \<not> is_Script c \<and>
           (case props_layout props of
              carousel speed autoplay items \<Rightarrow>
                c = Carousel (reviews st) (props_maxCharacters props)
                      (props_nameDisplay props) (props_logoVariant props)
                      (props_dateDisplay props) (props_reviewVariant props) speed autoplay
                      items (props_theme props) (props_accessibility props)
            | badge _ \<Rightarrow>
                c = Badge (averageRating st) (totalReviewCount st) (profileUrl st)
                      (props_theme props)
            | custom r \<Rightarrow> c = CustomNode (r (reviews st)))))"
proof (intro conjI impI)
  assume "lifecycle_of st = Loading"
  then show "render doc ToString props st = LoadingState"
    by (auto simp: lifecycle_of_def render_def split: if_splits)
next
  assume "lifecycle_of st \<noteq> Loading \<and> (lifecycle_of st = Error \<or> badge_guard props st)"
  then show "render doc ToString props st = ErrorState"
    by (auto simp: lifecycle_of_def render_def badge_guard_def split: if_splits)
next
  assume a: "lifecycle_of st = Ready \<and> \<not> badge_guard props st"
  then have r: "render doc ToString props st =
      Div (script_child doc ToString props st @ layout_child props st)"
    by (auto simp: lifecycle_of_def render_def badge_guard_def split: if_splits)
  from layout_child_one[of props st] obtain c where c: "layout_child props st = [c]"
    "\<not> is_Script c"
    "(case props_layout props of
        carousel speed autoplay items \<Rightarrow>
          c = Carousel (reviews st) (props_maxCharacters props) (props_nameDisplay props)
                (props_logoVariant props) (props_dateDisplay props)
                (props_reviewVariant props) speed autoplay items (props_theme props)
                (props_accessibility props)
      | badge _ \<Rightarrow>
          c = Badge (averageRating st) (totalReviewCount st) (profileUrl st) (props_theme props)
      | custom r \<Rightarrow> c = CustomNode (r (reviews st)))"
    by blast
  have s: "list_all is_Script (script_child doc ToString props st) \<and>
      length (script_child doc ToString props st) \<le> 1"
    using script_child_shape[of doc ToString props st] by auto
  show "\<exists>c. render doc ToString props st = Div (script_child doc ToString props st @ [c]) \<and>
           list_all is_Script (script_child doc ToString props st) \<and>
           length (script_child doc ToString props st) \<le> 1 \<and>
           \<not> is_Script c \<and>
           (case props_layout props of
              carousel speed autoplay items \<Rightarrow>
                c = Carousel (reviews st) (props_maxCharacters props)
                      (props_nameDisplay props) (props_logoVariant props)
                      (props_dateDisplay props) (props_reviewVariant props) speed autoplay
                      items (props_theme props) (props_accessibility props)
            | badge _ \<Rightarrow>
                c = Badge (averageRating st) (totalReviewCount st) (profileUrl st)
                      (props_theme props)
            | custom r \<Rightarrow> c = CustomNode (r (reviews st)))"
    using r c s by auto
qed

theorem render_precedence_witness:
  "render sample_document sample_ToString custom_props (ready_state\<lparr>loading := True\<rparr>) =
     LoadingState \<and>
   render sample_document sample_ToString custom_props (ready_state\<lparr>error := True\<rparr>) =
     ErrorState \<and>
   render sample_document sample_ToString badge_props ready_state = ErrorState \<and>
   render sample_document sample_ToString custom_props ready_state =
     Div [CustomNode ''Great'']"
proof -
  have l1: "lifecycle_of (ready_state\<lparr>loading := True\<rparr>) = Loading"
    and l2: "lifecycle_of (ready_state\<lparr>error := True\<rparr>) = Error"
    and l3: "lifecycle_of ready_state = Ready"
    by (simp_all add: lifecycle_of_def ready_state_def)
  have g1: "badge_guard badge_props ready_state"
    and g2: "\<not> badge_guard custom_props ready_state"
    by (simp_all add: badge_guard_def badge_props_def custom_props_def supplied_props_def
        sample_props_def ready_state_def)
  have sc: "script_child sample_document sample_ToString custom_props ready_state = []"
    by (simp add: script_child_def custom_props_def supplied_props_def sample_props_def)
  have lay: "props_layout custom_props = custom sample_renderer"
    by (simp add: custom_props_def supplied_props_def sample_props_def)
  have rr: "sample_renderer (reviews ready_state) = ''Great''"
    by (simp add: sample_renderer_def ready_state_def named_review_def)
  from render_precedence[of "ready_state\<lparr>loading := True\<rparr>" sample_document sample_ToString
      custom_props] l1
  have a: "render sample_document sample_ToString custom_props (ready_state\<lparr>loading := True\<rparr>)
      = LoadingState" by simp
  from render_precedence[of "ready_state\<lparr>error := True\<rparr>" sample_document sample_ToString
      custom_props] l2
  have b: "render sample_document sample_ToString custom_props (ready_state\<lparr>error := True\<rparr>)
      = ErrorState" by simp
  from render_precedence[of ready_state sample_document sample_ToString badge_props] l3 g1
  have c: "render sample_document sample_ToString badge_props ready_state = ErrorState"
    by simp
  from render_precedence[of ready_state sample_document sample_ToString custom_props] l3 g2
  have d: "render sample_document sample_ToString custom_props ready_state =
      Div [CustomNode ''Great'']"
    by (simp add: sc lay rr)
  from a b c d show ?thesis by simp
qed


section \<open>The structured-data document\<close>

lemma structured_reviews_length: "length (structured_reviews rs) \<le> 10"
  by (simp add: structured_reviews_def)

lemma structured_reviews_subset: "set (structured_reviews rs) \<subseteq> set rs"
  by (auto simp: structured_reviews_def dest: in_set_takeD)

lemma structured_reviews_anonymous:
  "r \<in> set (structured_reviews rs) \<Longrightarrow> isAnonymous (reviewer r)"
  by (auto simp: structured_reviews_def dest: in_set_takeD)

text \<open>
  C8. The review list of the document is to hold the reviews whose reviewer is not
  anonymous, at most ten of them. The filter of the source keeps a review when
  \<open>!!r.reviewer.isAnonymous\<close> holds, that is, when the reviewer is anonymous: of a named
  and an anonymous review the list holds the anonymous one only. (The list is a sublist of
  the state's reviews of length at most ten, by the three lemmas above, and each entry
  carries the four fields, by \<open>review_entry\<close>.)
\<close>

theorem structured_reviews_keeps_anonymous:
  "\<not> isAnonymous (reviewer named_review) \<and> isAnonymous (reviewer anonymous_review) \<and>
   structured_reviews [named_review, anonymous_review] = [anonymous_review] \<and>
   join_comma (map (review_entry sample_ToString)
      (structured_reviews [named_review, anonymous_review])) =
     review_entry sample_ToString anonymous_review"
  by (simp add: structured_reviews_def named_review_def anonymous_review_def)

lemma json_string_body_plain:
  "json_plain a \<Longrightarrow> json_string_body (a @ CHR 0x22 # rest) = Some a"
  by (induction a) (auto simp: json_plain_def)

lemma review_entry_split:
  \<open>review_entry ToString review =
     ''{\<newline>            "@type": "Review",\<newline>            "reviewBody": "'' @
     comment review @
     ''",\<newline>            "datePublished": "'' @
     createTime review @
     ''",\<newline>            "author": { "@type": "Person", "name": "'' @
     displayName (reviewer review) @
     CHR 0x22 #
     '' },\<newline>            "reviewRating": { "@type": "Rating", "ratingValue": '' @
     ToString (starRating review) @ '' }\<newline>        }''\<close>
  by (simp add: review_entry_def)

lemma join_comma_holds:
  "x \<in> set xs \<Longrightarrow> \<exists>before after. join_comma xs = before @ x @ after"
proof (induction xs rule: join_comma.induct)
  case 1
  then show ?case by simp
next
  case (2 s)
  then have "join_comma [s] = [] @ x @ []" by simp
  then show ?case by blast
next
  case (3 s t ss)
  show ?case
  proof (cases "x = s")
    case True
    then have "join_comma (s # t # ss) = [] @ x @ ('','' @ join_comma (t # ss))" by simp
    then show ?thesis by blast
  next
    case False
    with 3 obtain before after where "join_comma (t # ss) = before @ x @ after" by auto
    then have "join_comma (s # t # ss) = (s @ '','' @ before) @ x @ after" by simp
    then show ?thesis by blast
  qed
qed

text \<open>
  The document holds the entry of every review that passes the filter and the cut, as the
  template makes it.
\<close>

lemma structured_data_holds_entry:
  assumes "r \<in> set (structured_reviews rs)"
  shows "\<exists>before after.
     structured_data doc ToString props avg cnt rs =
       before @ review_entry ToString r @ after"
proof -
  from assms have "review_entry ToString r \<in>
      set (map (review_entry ToString) (structured_reviews rs))"
    by simp
  from join_comma_holds[OF this] obtain p q where
    j: "join_comma (map (review_entry ToString) (structured_reviews rs)) =
      p @ review_entry ToString r @ q"
    by blast
  obtain h where h: "structured_data doc ToString props avg cnt rs =
      h @ join_comma (map (review_entry ToString) (structured_reviews rs)) @
      '']\<newline>}\<newline>''"
    by (simp add: structured_data_def)
  then have "structured_data doc ToString props avg cnt rs =
      (h @ p) @ review_entry ToString r @ (q @ '']\<newline>}\<newline>'')"
    by (simp add: j)
  then show ?thesis by blast
qed

text \<open>
  C2. A quotation mark in a comment is to be escaped so that it does not end the enclosing
  value early. The template inserts the comment as it is: for the comment \<open>a"b\<close> the
  \<open>reviewBody\<close> value read back from the entry is \<open>a\<close>.
\<close>

theorem quote_ends_reviewBody_early:
  \<open>comment quote_review = ''a"b'' \<and>
   reviewBody_read sample_ToString quote_review = Some ''a''\<close>
  by (simp add: quote_review_def reviewBody_read_def review_entry_def is_control_def)

text \<open>
  C2, as the code has it. The serializer escapes nothing. For every review in the
  document's list, the document holds the comment and the display name as they are,
  between the quotation marks of the template; and where the comment has a quotation
  mark, after text with no quotation mark, backslash or control character, the
  \<open>reviewBody\<close> value that starts at the template's opening mark ends at that mark of the
  comment.
\<close>

theorem verbatim_interpolation:
  assumes "r \<in> set (structured_reviews rs)"
  shows \<open>\<exists>before between after.
     structured_data doc ToString props avg cnt rs =
       before @ ''"reviewBody": "'' @ comment r @ ''",'' @ between @
       ''"name": "'' @ displayName (reviewer r) @ ''" }'' @ after \<and>
     (\<forall>a b. comment r = a @ CHR 0x22 # b \<and> json_plain a \<longrightarrow>
        json_string_body
          (comment r @ ''",'' @ between @
           ''"name": "'' @ displayName (reviewer r) @ ''" }'' @ after) = Some a)\<close>
proof -
  from structured_data_holds_entry[OF assms] obtain p q where
    d: "structured_data doc ToString props avg cnt rs = p @ review_entry ToString r @ q"
    by blast
  define before where
    \<open>before = p @ ''{\<newline>            "@type": "Review",\<newline>            ''\<close>
  define between where
    \<open>between = ''\<newline>            "datePublished": "'' @ createTime r @
       ''",\<newline>            "author": { "@type": "Person", ''\<close>
  define after where
    \<open>after = '',\<newline>            "reviewRating": { "@type": "Rating", "ratingValue": '' @
       ToString (starRating r) @ '' }\<newline>        }'' @ q\<close>
  have shape: \<open>structured_data doc ToString props avg cnt rs =
       before @ ''"reviewBody": "'' @ comment r @ ''",'' @ between @
       ''"name": "'' @ displayName (reviewer r) @ ''" }'' @ after\<close>
    by (simp add: d review_entry_split before_def between_def after_def)
  have cut: \<open>json_string_body
          (comment r @ ''",'' @ between @
           ''"name": "'' @ displayName (reviewer r) @ ''" }'' @ after) = Some a\<close>
    if "comment r = a @ CHR 0x22 # b \<and> json_plain a" for a b
    using that json_string_body_plain[of a] by simp
  from shape cut show ?thesis by blast
qed

theorem verbatim_interpolation_witness:
  \<open>\<exists>before between after.
     structured_data sample_document sample_ToString supplied_props (Def (Fin 5))
         (Def (Fin 12)) [named_review, quote_review] =
       before @ ''"reviewBody": "a"b",'' @ between @ ''"name": "Bo" }'' @ after \<and>
     json_string_body (''a"b",'' @ between @ ''"name": "Bo" }'' @ after) = Some ''a''\<close>
proof -
  have m: "quote_review \<in> set (structured_reviews [named_review, quote_review])"
    by (simp add: structured_reviews_def quote_review_def named_review_def)
  have c: \<open>comment quote_review = ''a'' @ CHR 0x22 # ''b''\<close>
    and n: "displayName (reviewer quote_review) = ''Bo''"
    by (simp_all add: quote_review_def)
  have p: "json_plain ''a''" by (simp add: json_plain_def is_control_def)
  from verbatim_interpolation[OF m, of sample_document sample_ToString supplied_props
      "Def (Fin 5)" "Def (Fin 12)"]
  obtain before between after where
    1: \<open>structured_data sample_document sample_ToString supplied_props (Def (Fin 5))
         (Def (Fin 12)) [named_review, quote_review] =
       before @ ''"reviewBody": "'' @ comment quote_review @ ''",'' @ between @
       ''"name": "'' @ displayName (reviewer quote_review) @ ''" }'' @ after\<close>
    and 2: \<open>\<forall>a b. comment quote_review = a @ CHR 0x22 # b \<and> json_plain a \<longrightarrow>
        json_string_body
          (comment quote_review @ ''",'' @ between @
           ''"name": "'' @ displayName (reviewer quote_review) @ ''" }'' @ after) = Some a\<close>
    by blast
  from 2 c p have 3: \<open>json_string_body
          (comment quote_review @ ''",'' @ between @
           ''"name": "'' @ displayName (reviewer quote_review) @ ''" }'' @ after) = Some ''a''\<close>
    by blast
  from 1 3 show ?thesis
    unfolding c n by (intro exI[of _ before] exI[of _ between] exI[of _ after]) simp
qed

section \<open>Reconfiguration and late responses\<close>

lemma run_effect_fetches:
  assumes "validate (inst_props inst) = Inr ()"
  shows "\<exists>inst'. run_effect doc ToString inst = Inr inst' \<and>
     inst_props inst' = inst_props inst \<and>
     inst_fetches inst' = inst_fetches inst @
       (case props_featurableId (inst_props inst) of
          Some j \<Rightarrow> if j \<noteq> [] then [widget_url j] else []
        | None \<Rightarrow> [])"
proof (cases "useEffect_body (inst_props inst)")
  case (fetch url)
  then show ?thesis
    by (auto simp: run_effect_def useEffect_body_def split: option.splits if_splits)
next
  case (setLoading b)
  from set_state_valid[OF assms, of doc ToString "\<lambda>st. st\<lparr>loading := b\<rparr>"]
  obtain inst' where "set_state doc ToString (\<lambda>st. st\<lparr>loading := b\<rparr>) inst = Inr inst'"
    "inst_props inst' = inst_props inst" "inst_fetches inst' = inst_fetches inst"
    by auto
  with setLoading show ?thesis
    by (auto simp: run_effect_def useEffect_body_def split: option.splits if_splits)
qed

lemma reconfigure_fetches:
  assumes "validate props' = Inr ()"
  shows "\<exists>inst'. reconfigure doc ToString props' inst = Inr inst' \<and>
     inst_props inst' = props' \<and>
     inst_fetches inst' = inst_fetches inst @
       (case props_featurableId props' of
          Some j \<Rightarrow>
            if j \<noteq> [] \<and> props_featurableId (inst_props inst) \<noteq> Some j
            then [widget_url j] else []
        | None \<Rightarrow> [])"
proof (cases "props_featurableId props' = props_featurableId (inst_props inst)")
  case True
  then show ?thesis
    using assms by (auto simp: reconfigure_def component_rerender Let_def split: option.splits)
next
  case False
  let ?i1 = "inst\<lparr>inst_props := props',
      inst_rendered := inst_rendered inst @ [render doc ToString props' (inst_state inst)]\<rparr>"
  have v: "validate (inst_props ?i1) = Inr ()" using assms by simp
  from run_effect_fetches[OF v, of doc ToString]
  obtain inst' where "run_effect doc ToString ?i1 = Inr inst'"
    "inst_props inst' = props'"
    "inst_fetches inst' = inst_fetches inst @
       (case props_featurableId props' of
          Some j \<Rightarrow> if j \<noteq> [] then [widget_url j] else []
        | None \<Rightarrow> [])"
    by auto
  with False show ?thesis
    using assms by (auto simp: reconfigure_def component_rerender Let_def split: option.splits)
qed

text \<open>
  C9. A response that is still in flight when a request for another identifier has been
  issued is not to be applied. The chain has no guard and the effect no cleanup: with the
  identifier changed from \<open>a\<close> to \<open>b\<close>, two requests are issued; the response for \<open>b\<close>
  arrives and is applied; the response for \<open>a\<close> arrives later and overwrites it, while
  \<open>b\<close> is the configured identifier.
\<close>

theorem stale_response_is_applied:
  "props_featurableId remote_a = Some ''a'' \<and> props_featurableId remote_b = Some ''b'' \<and>
   outcome_fetches (mount sample_document sample_ToString remote_a) = [widget_url ''a''] \<and>
   outcome_fetches
     (run sample_document sample_ToString (mount sample_document sample_ToString remote_a)
        fresh_then_stale) = [widget_url ''a'', widget_url ''b''] \<and>
   map_option reviews (outcome_state
     (run sample_document sample_ToString (mount sample_document sample_ToString remote_a)
        (take 2 fresh_then_stale))) = Some (data_reviews success_data) \<and>
   map_option reviews (outcome_state
     (run sample_document sample_ToString (mount sample_document sample_ToString remote_a)
        fresh_then_stale)) = Some (data_reviews stale_data) \<and>
   data_reviews stale_data \<noteq> data_reviews success_data"
  by (simp add: remote_a_def remote_b_def sample_props_def fresh_then_stale_def
      success_data_def stale_data_def named_review_def anonymous_review_def
      validate_def mount_def ReactGoogleReviews_def useState_init_def
      render_def run_effect_def useEffect_body_def set_state_def script_child_def
      layout_child_def outcome_fetches_def outcome_state_def reconfigure_def settle_def
      chain_update_def then_data_def finally_handler_def Let_def)

text \<open>
  C9, as the code has it. For one mounted instance with configurations that pass the
  checks: the mount issues one request when the identifier is a non-empty string; a
  reconfiguration issues exactly one request, for the new identifier, when the identifier
  differs from the one before and is a non-empty string, and none otherwise (so none for
  an unchanged identifier); and every pending request's response is applied when it
  arrives, a successful one overwriting the four cells, whichever identifier is
  configured by then.
\<close>

theorem fetch_at_each_identifier_change:
  "(validate props = Inr () \<and> props_featurableId props = Some i \<and> i \<noteq> [] \<longrightarrow>
      outcome_fetches (mount doc ToString props) = [widget_url i]) \<and>
   (validate props' = Inr () \<longrightarrow>
      (\<exists>inst'. reconfigure doc ToString props' inst = Inr inst' \<and>
         inst_fetches inst' = inst_fetches inst @
           (case props_featurableId props' of
              Some j \<Rightarrow>
                if j \<noteq> [] \<and> props_featurableId (inst_props inst) \<noteq> Some j
                then [widget_url j] else []
            | None \<Rightarrow> []))) \<and>
   (validate (inst_props inst) = Inr () \<and> k \<in> set (inst_pending inst) \<and>
    data_success data \<longrightarrow>
      (\<exists>inst'. settle doc ToString k (Body data) inst = Inr inst' \<and>
         inst_fetches inst' = inst_fetches inst \<and>
         reviews (inst_state inst') = data_reviews data \<and>
         profileUrl (inst_state inst') = Some (data_profileUrl data) \<and>
         totalReviewCount (inst_state inst') = Some (data_totalReviewCount data) \<and>
         averageRating (inst_state inst') = Some (data_averageRating data)))"
proof (intro conjI impI)
  assume "validate props = Inr () \<and> props_featurableId props = Some i \<and> i \<noteq> []"
  then show "outcome_fetches (mount doc ToString props) = [widget_url i]"
    using mount_fetch[OF effect_with_id, of props i doc ToString]
    by (simp add: outcome_fetches_def)
next
  assume "validate props' = Inr ()"
  then show "\<exists>inst'. reconfigure doc ToString props' inst = Inr inst' \<and>
         inst_fetches inst' = inst_fetches inst @
           (case props_featurableId props' of
              Some j \<Rightarrow>
                if j \<noteq> [] \<and> props_featurableId (inst_props inst) \<noteq> Some j
                then [widget_url j] else []
            | None \<Rightarrow> [])"
    using reconfigure_fetches[of props' doc ToString inst] by blast
next
  assume a: "validate (inst_props inst) = Inr () \<and> k \<in> set (inst_pending inst) \<and>
    data_success data"
  then have v: "validate (inst_props inst) = Inr ()" and p: "k \<in> set (inst_pending inst)"
    and d: "data_success data" by simp_all
  from settle_valid[OF v p, of doc ToString "Body data"]
  obtain inst' where "settle doc ToString k (Body data) inst = Inr inst'"
    "inst_state inst' = finally_handler (chain_update (Body data) (inst_state inst))"
    "inst_fetches inst' = inst_fetches inst"
    by auto
  with d show "\<exists>inst'. settle doc ToString k (Body data) inst = Inr inst' \<and>
         inst_fetches inst' = inst_fetches inst \<and>
         reviews (inst_state inst') = data_reviews data \<and>
         profileUrl (inst_state inst') = Some (data_profileUrl data) \<and>
         totalReviewCount (inst_state inst') = Some (data_totalReviewCount data) \<and>
         averageRating (inst_state inst') = Some (data_averageRating data)"
    by (simp add: chain_update_def then_data_def finally_handler_def)
qed

theorem fetch_at_each_identifier_change_witness:
  "mount sample_document sample_ToString remote_a = Inr mounted_a \<and>
   outcome_fetches (mount sample_document sample_ToString remote_a) = [widget_url ''a''] \<and>
   (\<exists>inst'. reconfigure sample_document sample_ToString remote_a mounted_a = Inr inst' \<and>
      inst_fetches inst' = [widget_url ''a'']) \<and>
   (\<exists>inst'. reconfigure sample_document sample_ToString remote_b mounted_a = Inr inst' \<and>
      inst_fetches inst' = [widget_url ''a'', widget_url ''b'']) \<and>
   (\<exists>inst'. settle sample_document sample_ToString 0 (Body stale_data) mounted_a = Inr inst' \<and>
      inst_fetches inst' = [widget_url ''a''] \<and>
      reviews (inst_state inst') = [anonymous_review] \<and>
      profileUrl (inst_state inst') = Some (Def ''v'') \<and>
      totalReviewCount (inst_state inst') = Some (Def (Fin 5)) \<and>
      averageRating (inst_state inst') = Some (Def (Fin 5)))"
proof -
  have va: "validate remote_a = Inr ()" and vb: "validate remote_b = Inr ()"
    by (simp_all add: remote_a_def remote_b_def sample_props_def validate_def)
  have ia: "props_featurableId remote_a = Some ''a''"
    and ib: "props_featurableId remote_b = Some ''b''"
    by (simp_all add: remote_a_def remote_b_def sample_props_def)
  have m: "mount sample_document sample_ToString remote_a = Inr mounted_a"
    using mount_fetch[OF effect_with_id[OF ia] va] by (simp add: mounted_a_def)
  have pa: "inst_props mounted_a = remote_a" and fa: "inst_fetches mounted_a = [widget_url ''a'']"
    and ka: "0 \<in> set (inst_pending mounted_a)"
    by (simp_all add: mounted_a_def)
  have ds: "data_success stale_data" by (simp add: stale_data_def)
  note t1 = fetch_at_each_identifier_change[where props = remote_a and i = "''a''"
      and doc = sample_document and ToString = sample_ToString and props' = remote_a
      and inst = mounted_a and k = 0 and data = stale_data]
  note t2 = fetch_at_each_identifier_change[where props = remote_a and i = "''a''"
      and doc = sample_document and ToString = sample_ToString and props' = remote_b
      and inst = mounted_a and k = 0 and data = stale_data]
  from t1 va ia have 1:
    "outcome_fetches (mount sample_document sample_ToString remote_a) = [widget_url ''a'']"
    by simp
  from t1 va ia pa fa have 2:
    "\<exists>inst'. reconfigure sample_document sample_ToString remote_a mounted_a = Inr inst' \<and>
      inst_fetches inst' = [widget_url ''a'']"
    by simp
  from t2 vb ia ib pa fa have 3:
    "\<exists>inst'. reconfigure sample_document sample_ToString remote_b mounted_a = Inr inst' \<and>
      inst_fetches inst' = [widget_url ''a'', widget_url ''b'']"
    by simp
  from t1 va pa ka ds fa have 4:
    "\<exists>inst'. settle sample_document sample_ToString 0 (Body stale_data) mounted_a = Inr inst' \<and>
      inst_fetches inst' = [widget_url ''a''] \<and>
      reviews (inst_state inst') = [anonymous_review] \<and>
      profileUrl (inst_state inst') = Some (Def ''v'') \<and>
      totalReviewCount (inst_state inst') = Some (Def (Fin 5)) \<and>
      averageRating (inst_state inst') = Some (Def (Fin 5))"
    by (simp add: stale_data_def)
  from m 1 2 3 4 show ?thesis by blast
qed

end
